theory Spec2Isabelle
  imports Main "HOL-Library.Sublist"
begin

section \<open>Python strings\<close>

text \<open>
  Text is a list of 8-bit characters. The recogniser (a small English Vosk model) produces
  lower-case ASCII words, so the string methods are modelled on the ASCII range: there
  \<open>str.lower\<close> maps \<open>A..Z\<close> to \<open>a..z\<close>, \<open>str.isspace\<close> holds of the tab, line feed,
  vertical tab, form feed, carriage return, the four separators \<open>0x1C..0x1F\<close> and the
  space, and \<open>str.isdigit\<close> holds of a non-empty string of \<open>0..9\<close>.
\<close>

definition lower_char :: "char \<Rightarrow> char" where
  "lower_char c =
     (case map_of (zip ''ABCDEFGHIJKLMNOPQRSTUVWXYZ'' ''abcdefghijklmnopqrstuvwxyz'') c of
        None \<Rightarrow> c
      | Some d \<Rightarrow> d)"

definition lower :: "string \<Rightarrow> string" where
  "lower s = map lower_char s"

definition isspace :: "char \<Rightarrow> bool" where
  "isspace c = (c \<in> set [CHR 0x09, CHR 0x0A, CHR 0x0B, CHR 0x0C, CHR 0x0D,
                          CHR 0x1C, CHR 0x1D, CHR 0x1E, CHR 0x1F, CHR '' ''])"

text \<open>
  \<open>s.split()\<close> with no argument: the maximal runs of non-space characters, in order.
  \<open>split_from cur s\<close> scans \<open>s\<close> with the word under construction in \<open>cur\<close>.
\<close>

fun split_from :: "string \<Rightarrow> string \<Rightarrow> string list" where
  "split_from cur [] = (if cur = [] then [] else [cur])"
| "split_from cur (c # cs) =
     (if isspace c then (if cur = [] then split_from [] cs else cur # split_from [] cs)
      else split_from (cur @ [c]) cs)"

definition split :: "string \<Rightarrow> string list" where
  "split s = split_from [] s"

definition isdigit :: "string \<Rightarrow> bool" where
  "isdigit s = (s \<noteq> [] \<and> list_all (\<lambda>c. c \<in> set ''0123456789'') s)"

text \<open>
  \<open>s.strip()\<close> removes the white space at both ends. \<open>sub in s\<close> on strings holds when
  \<open>sub\<close> occurs in \<open>s\<close> as a contiguous run of characters.
\<close>

definition strip :: "string \<Rightarrow> string" where
  "strip s = rev (dropWhile isspace (rev (dropWhile isspace s)))"

definition contains :: "string \<Rightarrow> string \<Rightarrow> bool" where
  "contains s sub = sublist sub s"

text \<open>\<open>str(n)\<close> of an integer, as an f-string prints it.\<close>

fun str_nat :: "nat \<Rightarrow> string" where
  "str_nat n =
     (if n < 10 then [''0123456789'' ! n]
      else str_nat (n div 10) @ [''0123456789'' ! (n mod 10)])"

declare str_nat.simps [simp del]

definition str_int :: "int \<Rightarrow> string" where
  "str_int i = (if i < 0 then ''-'' @ str_nat (nat (- i)) else str_nat (nat i))"

text \<open>
  \<open>int(s)\<close> on a string of decimal digits; \<open>None\<close> stands for \<open>ValueError\<close>. Python reads
  signs, surrounding white space and underscores as well; the source applies \<open>int\<close> to the
  target of a volume command only, which is all digits.
\<close>

definition digit_value :: "char \<Rightarrow> int" where
  "digit_value c = int (length (takeWhile (\<lambda>d. d \<noteq> c) ''0123456789''))"

definition py_int :: "string \<Rightarrow> int option" where
  "py_int s = (if isdigit s then Some (foldl (\<lambda>n c. 10 * n + digit_value c) 0 s) else None)"

text \<open>\<open>sep.join(ws)\<close>.\<close>

fun join :: "string \<Rightarrow> string list \<Rightarrow> string" where
  "join sep [] = []"
| "join sep [w] = w"
| "join sep (w # v # ws) = w @ sep @ join sep (v # ws)"

section \<open>The command parser\<close>

text \<open>
  \<open>parse_command\<close> of \<open>main.py\<close>, and the method of the same name and body of
  \<open>VoiceSystem\<close> in \<open>sydny_integrated.py\<close>. The source returns a pair of an intent string
  (or \<open>None\<close>) and a target string (or \<open>None\<close>); the intent strings \<open>"open"\<close>, \<open>"close"\<close>,
  \<open>"openfile"\<close>, \<open>"search"\<close>, \<open>"delete"\<close>, \<open>"volume"\<close>, \<open>"mute"\<close>, \<open>"unmute"\<close>, \<open>"shutdown"\<close>,
  \<open>"restart"\<close>, \<open>"sleep"\<close> and \<open>"exit"\<close> are the constructors below, and the intent \<open>None\<close>
  (the specification's \<open>Unknown\<close>) is \<open>None\<close>.
\<close>

datatype intent = Open | Close | OpenFile | Search | Delete | Volume | Mute | Unmute
  | Shutdown | Restart | Sleep | Exit

type_synonym command = "intent option \<times> string option"

definition filler_words :: "string list" where
  "filler_words = [''please'', ''could'', ''you'', ''can'', ''would'', ''will'',
                   ''up'', ''the'', ''a'', ''an'', ''for'', ''me'', ''my'']"

text \<open>The stripped tokens: \<open>[w for w in text.lower().split() if w not in filler_words]\<close>.\<close>

definition cleaned_words :: "string \<Rightarrow> string list" where
  "cleaned_words text = [w \<leftarrow> split (lower text). w \<notin> set filler_words]"

text \<open>
  The body of \<open>parse_command\<close> is a sequence of \<open>if\<close> statements over the variable
  \<open>cleaned_words\<close>, which a statement whose keyword test succeeds overwrites (by a
  comprehension, or in place by \<open>list.remove\<close>, which deletes the first occurrence) before
  it tests the remainder. A statement that does not return therefore hands the list as it
  has left it to the statements after it. Each function below is the rest of the body from
  one statement on, applied to the current value of the variable.
\<close>

definition match_simple :: "string list \<Rightarrow> command" where
  "match_simple cw =
     (if ''mute'' \<in> set cw then (Some Mute, None)
      else if ''unmute'' \<in> set cw then (Some Unmute, None)
      else if ''shutdown'' \<in> set cw \<or> ''shut'' \<in> set cw then (Some Shutdown, None)
      else if ''restart'' \<in> set cw then (Some Restart, None)
      else if ''sleep'' \<in> set cw then (Some Sleep, None)
      else if ''exit'' \<in> set cw \<or> ''quit'' \<in> set cw then (Some Exit, None)
      else (None, None))"

definition match_volume :: "string list \<Rightarrow> command" where
  "match_volume cw =
     (if ''volume'' \<in> set cw
      then (case find isdigit (remove1 ''volume'' cw) of
              Some word \<Rightarrow> (Some Volume, Some word)
            | None \<Rightarrow> (Some Volume, None))
      else match_simple cw)"

definition match_delete :: "string list \<Rightarrow> command" where
  "match_delete cw =
     (if ''delete'' \<in> set cw
      then (let cw' = [w \<leftarrow> cw. w \<notin> set [''delete'', ''file'']]
            in if cw' \<noteq> [] then (Some Delete, Some (join '' '' cw')) else match_volume cw')
      else match_volume cw)"

definition match_search :: "string list \<Rightarrow> command" where
  "match_search cw =
     (if ''search'' \<in> set cw \<or> ''find'' \<in> set cw
      then (let cw' = [w \<leftarrow> cw. w \<notin> set [''search'', ''find'', ''file'']]
            in if cw' \<noteq> [] then (Some Search, Some (join '' '' cw')) else match_delete cw')
      else match_delete cw)"

definition match_close :: "string list \<Rightarrow> command" where
  "match_close cw =
     (if ''close'' \<in> set cw
      then (let cw' = remove1 ''close'' cw
            in if cw' \<noteq> [] then (Some Close, Some (join '' '' cw')) else match_search cw')
      else match_search cw)"

definition match_open :: "string list \<Rightarrow> command" where
  "match_open cw =
     (if ''open'' \<in> set cw
      then (let cw' = remove1 ''open'' cw
            in if cw' \<noteq> [] then (Some Open, Some (join '' '' cw')) else match_close cw')
      else match_close cw)"

definition match_openfile :: "string list \<Rightarrow> command" where
  "match_openfile cw =
     (if ''file'' \<in> set cw \<and> ''open'' \<in> set cw
      then (let cw' = [w \<leftarrow> cw. w \<notin> set [''open'', ''file'']]
            in if cw' \<noteq> [] then (Some OpenFile, Some (join '' '' cw')) else match_open cw')
      else match_open cw)"

definition parse_command :: "string \<Rightarrow> command" where
  "parse_command text = match_openfile (cleaned_words text)"

text \<open>
  The intents whose handler in the main loop needs a target, and a command that carries a
  non-empty target.
\<close>

definition has_target :: "command \<Rightarrow> bool" where
  "has_target r = (case snd r of None \<Rightarrow> False | Some t \<Rightarrow> t \<noteq> [])"

definition target_ok :: "command \<Rightarrow> bool" where
  "target_ok r = (fst r \<in> {Some Open, Some Close, Some OpenFile, Some Search, Some Delete}
                  \<longrightarrow> has_target r)"

section \<open>The system-control module\<close>

text \<open>
  \<open>windows_system.py\<close>. Its functions call into the platform (the audio endpoint, the
  \<open>shutdown\<close> and \<open>taskkill\<close> commands, the file system) and report in a sentence. The
  platform is an environment \<open>os_env\<close> that answers the queries and says which call
  raises; a mutating call that the platform accepts is appended to the log \<open>os_calls\<close> of
  the world. The module's global \<open>ANNOUNCE_ONLY\<close> is the field \<open>announce_only\<close>.
\<close>

datatype exn = CalledProcessError string | FileNotFoundError string | PermissionError string
  | OtherError string

fun str_exn :: "exn \<Rightarrow> string" where
  "str_exn (CalledProcessError m) = m"
| "str_exn (FileNotFoundError m) = m"
| "str_exn (PermissionError m) = m"
| "str_exn (OtherError m) = m"

datatype os_call =
    SetMasterVolumeLevelScalar int
  | SetMute bool
  | Run "string list"
  | Popen string
  | Startfile string
  | Move string string
  | Remove string

text \<open>
  \<open>SetMasterVolumeLevelScalar level\<close> stands for the call with the scalar \<open>level / 100.0\<close>.
  \<open>glob env dir pattern\<close> is what iterating \<open>dir.glob(pattern)\<close> yields, each item with the
  answer of its \<open>is_file()\<close>, and the exception that ends the iteration, if one does.
\<close>

record os_env =
  volume_interface :: bool
  raises :: "os_call \<Rightarrow> exn option"
  taskkill :: "int \<times> string"
  home :: "string option"
  joinpath :: "string \<Rightarrow> string \<Rightarrow> string"
  exists :: "string \<Rightarrow> bool"
  isfile :: "string \<Rightarrow> bool"
  path_name :: "string \<Rightarrow> string"
  glob :: "string \<Rightarrow> string \<Rightarrow> (string \<times> bool) list \<times> exn option"

record world =
  announce_only :: bool
  os_calls :: "os_call list"
  said :: "string list"

definition set_announce_mode :: "bool \<Rightarrow> world \<Rightarrow> world" where
  "set_announce_mode enabled w = w\<lparr>announce_only := enabled\<rparr>"

definition perform :: "os_call \<Rightarrow> world \<Rightarrow> world" where
  "perform c w = w\<lparr>os_calls := os_calls w @ [c]\<rparr>"

text \<open>
  The level is an integer here, so the \<open>isinstance(level, int)\<close> test of the source always
  passes. \<open>get_volume_interface\<close> returns \<open>None\<close> when the platform gives no interface.
\<close>

definition set_volume :: "os_env \<Rightarrow> int \<Rightarrow> world \<Rightarrow> string \<times> world" where
  "set_volume env level w =
     (if announce_only w then (''Would set volume to '' @ str_int level @ ''%'', w)
      else if \<not> (0 \<le> level \<and> level \<le> 100) then (''Volume must be between 0 and 100'', w)
      else if \<not> volume_interface env then (''Error: Could not access volume control'', w)
      else (case raises env (SetMasterVolumeLevelScalar level) of
              Some e \<Rightarrow> (''Error setting volume: '' @ str_exn e, w)
            | None \<Rightarrow> (''Volume set to '' @ str_int level @ ''%'',
                       perform (SetMasterVolumeLevelScalar level) w)))"

definition mute :: "os_env \<Rightarrow> world \<Rightarrow> string \<times> world" where
  "mute env w =
     (if announce_only w then (''Would mute audio'', w)
      else if \<not> volume_interface env then (''Error: Could not access volume control'', w)
      else (case raises env (SetMute True) of
              Some e \<Rightarrow> (''Error muting: '' @ str_exn e, w)
            | None \<Rightarrow> (''Audio muted'', perform (SetMute True) w)))"

definition unmute :: "os_env \<Rightarrow> world \<Rightarrow> string \<times> world" where
  "unmute env w =
     (if announce_only w then (''Would unmute audio'', w)
      else if \<not> volume_interface env then (''Error: Could not access volume control'', w)
      else (case raises env (SetMute False) of
              Some e \<Rightarrow> (''Error unmuting: '' @ str_exn e, w)
            | None \<Rightarrow> (''Audio unmuted'', perform (SetMute False) w)))"

definition shutdown_system :: "os_env \<Rightarrow> world \<Rightarrow> string \<times> world" where
  "shutdown_system env w =
     (if announce_only w then (''Would shut down the system'', w)
      else (case raises env (Run [''shutdown'', ''/s'', ''/t'', ''0'']) of
              None \<Rightarrow> (''Shutting down system'', perform (Run [''shutdown'', ''/s'', ''/t'', ''0'']) w)
            | Some (CalledProcessError m) \<Rightarrow> (''Error shutting down: '' @ m, w)
            | Some e \<Rightarrow> (''Unexpected error during shutdown: '' @ str_exn e, w)))"

definition restart_system :: "os_env \<Rightarrow> world \<Rightarrow> string \<times> world" where
  "restart_system env w =
     (if announce_only w then (''Would restart the system'', w)
      else (case raises env (Run [''shutdown'', ''/r'', ''/t'', ''0'']) of
              None \<Rightarrow> (''Restarting system'', perform (Run [''shutdown'', ''/r'', ''/t'', ''0'']) w)
            | Some (CalledProcessError m) \<Rightarrow> (''Error restarting: '' @ m, w)
            | Some e \<Rightarrow> (''Unexpected error during restart: '' @ str_exn e, w)))"

definition sleep_system :: "os_env \<Rightarrow> world \<Rightarrow> string \<times> world" where
  "sleep_system env w =
     (if announce_only w then (''Would put the system to sleep'', w)
      else (case raises env
                  (Run [''rundll32.exe'', ''powrprof.dll,SetSuspendState'', ''0'', ''1'', ''0'']) of
              None \<Rightarrow> (''Putting system to sleep'',
                       perform (Run [''rundll32.exe'', ''powrprof.dll,SetSuspendState'',
                                     ''0'', ''1'', ''0'']) w)
            | Some (CalledProcessError m) \<Rightarrow> (''Error sleeping system: '' @ m, w)
            | Some e \<Rightarrow> (''Unexpected error during sleep: '' @ str_exn e, w)))"

definition open_app :: "os_env \<Rightarrow> string \<Rightarrow> world \<Rightarrow> string \<times> world" where
  "open_app env app_name w =
     (if announce_only w then (''Would open '' @ app_name, w)
      else if app_name = [] then (''Invalid app name'', w)
      else if contains (lower app_name) ''notepad''
      then (case raises env (Popen ''notepad.exe'') of
              None \<Rightarrow> (''Opening notepad'', perform (Popen ''notepad.exe'') w)
            | Some (FileNotFoundError m) \<Rightarrow> (''Could not find '' @ app_name, w)
            | Some e \<Rightarrow> (''Error opening '' @ app_name @ '': '' @ str_exn e, w))
      else (''I don't know how to open '' @ app_name @ '' yet'', w))"

text \<open>
  \<open>taskkill\<close> is run without \<open>check\<close>: the call is logged when it returns, and its return
  code and error output choose the sentence.
\<close>

definition close_app :: "os_env \<Rightarrow> string \<Rightarrow> world \<Rightarrow> string \<times> world" where
  "close_app env app_name w =
     (if announce_only w then (''Would close '' @ app_name, w)
      else if app_name = [] then (''Invalid app name'', w)
      else if contains (lower app_name) ''notepad''
      then (case raises env (Run [''taskkill'', ''/F'', ''/IM'', ''notepad.exe'']) of
              Some e \<Rightarrow> (''Error closing '' @ app_name @ '': '' @ str_exn e, w)
            | None \<Rightarrow>
                (let w' = perform (Run [''taskkill'', ''/F'', ''/IM'', ''notepad.exe'']) w
                 in if fst (taskkill env) = 0 then (''Closed notepad'', w')
                    else if contains (lower (snd (taskkill env))) ''not found''
                    then (''Notepad is not running'', w')
                    else (''Error closing notepad'', w')))
      else (''I don't know how to close '' @ app_name @ '' yet'', w))"

definition open_file :: "os_env \<Rightarrow> string \<Rightarrow> world \<Rightarrow> string \<times> world" where
  "open_file env filepath w =
     (if announce_only w then (''Would open '' @ path_name env filepath, w)
      else if \<not> exists env filepath then (''File not found: '' @ filepath, w)
      else if \<not> isfile env filepath then (''Not a file: '' @ filepath, w)
      else (case raises env (Startfile filepath) of
              None \<Rightarrow> (''Opening '' @ path_name env filepath, perform (Startfile filepath) w)
            | Some (FileNotFoundError m) \<Rightarrow> (''File not found: '' @ filepath, w)
            | Some (PermissionError m) \<Rightarrow> (''Permission denied: '' @ filepath, w)
            | Some e \<Rightarrow> (''Error opening file: '' @ str_exn e, w)))"


definition delete_file :: "os_env \<Rightarrow> string \<Rightarrow> world \<Rightarrow> string \<times> world" where
  "delete_file env filepath w =
     (if announce_only w then (''Would delete '' @ path_name env filepath, w)
      else if \<not> exists env filepath then (''File not found: '' @ filepath, w)
      else if \<not> isfile env filepath then (''Not a file: '' @ filepath, w)
      else (case raises env (Remove filepath) of
              None \<Rightarrow> (''Deleted '' @ path_name env filepath, perform (Remove filepath) w)
            | Some (FileNotFoundError m) \<Rightarrow> (''File not found: '' @ filepath, w)
            | Some (PermissionError m) \<Rightarrow>
                (''Permission denied: Cannot delete '' @ path_name env filepath, w)
            | Some e \<Rightarrow> (''Error deleting file: '' @ str_exn e, w)))"

subsection \<open>File search\<close>

text \<open>
  \<open>get_search_paths\<close>: the desktop, documents and downloads folders and the home folder
  itself, those that exist; no folder when the home folder cannot be determined.
\<close>

definition get_search_paths :: "os_env \<Rightarrow> string list" where
  "get_search_paths env =
     (case home env of
        None \<Rightarrow> []
      | Some user_home \<Rightarrow>
          [p \<leftarrow> [joinpath env user_home ''Desktop'', joinpath env user_home ''Documents'',
                 joinpath env user_home ''Downloads'', user_home]. exists env p])"

text \<open>
  The loop of \<open>search_file\<close> over the folders. For one folder the inner loop appends every
  file that the pattern yields; the test \<open>len(matches) >= 5\<close> comes after the inner loop,
  and an exception raised during the iteration keeps the paths appended so far and goes on
  with the next folder.
\<close>

fun search_loop :: "os_env \<Rightarrow> string \<Rightarrow> string list \<Rightarrow> string list \<Rightarrow> string list" where
  "search_loop env filename [] matches = matches"
| "search_loop env filename (search_path # rest) matches =
     (case glob env search_path (''*'' @ filename @ ''*'') of
        (items, raised) \<Rightarrow>
          (let matches' = matches @ [item. (item, is_file) \<leftarrow> items, is_file]
           in case raised of
                Some e \<Rightarrow> search_loop env filename rest matches'
              | None \<Rightarrow>
                  if length matches' \<ge> 5 then matches'
                  else search_loop env filename rest matches'))"

definition search_file :: "os_env \<Rightarrow> string \<Rightarrow> string list" where
  "search_file env filename =
     (if filename = [] then [] else search_loop env filename (get_search_paths env) [])"

subsection \<open>Announce-only mode\<close>


text \<open>
  A platform for the examples: every call succeeds, and the desktop holds six files whose
  names contain \<open>report\<close>.
\<close>

definition sample_env :: os_env where
  "sample_env =
     \<lparr>volume_interface = True,
      raises = (\<lambda>c. None),
      taskkill = (0, []),
      home = Some ''C:/Users/sydny'',
      joinpath = (\<lambda>d n. d @ ''/'' @ n),
      exists = (\<lambda>p. True),
      isfile = (\<lambda>p. True),
      path_name = (\<lambda>p. rev (takeWhile (\<lambda>c. c \<noteq> CHR ''/'') (rev p))),
      glob = (\<lambda>d pattern.
                if d = ''C:/Users/sydny/Desktop'' \<and> pattern = ''*report*''
                then ([(''C:/Users/sydny/Desktop/report1.txt'', True),
                       (''C:/Users/sydny/Desktop/report2.txt'', True),
                       (''C:/Users/sydny/Desktop/report3.txt'', True),
                       (''C:/Users/sydny/Desktop/report4.txt'', True),
                       (''C:/Users/sydny/Desktop/report5.txt'', True),
                       (''C:/Users/sydny/Desktop/report6.txt'', True)], None)
                else ([], None))\<rparr>"


section \<open>The confirmation gate and the main loop\<close>

text \<open>
  \<open>speak\<close> guards its own body (\<open>try\<close> \dots \<open>except Exception\<close>), so it never raises; the
  sentences spoken are collected in the field \<open>said\<close>.
\<close>

definition speak :: "string \<Rightarrow> world \<Rightarrow> world" where
  "speak text w = w\<lparr>said := said w @ [text]\<rparr>"

text \<open>
  What can be raised: \<open>Error m\<close>, an instance of \<open>Exception\<close> whose \<open>str\<close> is \<open>m\<close>, and
  \<open>Interrupt\<close>, a \<open>KeyboardInterrupt\<close>, which \<open>except Exception\<close> does not catch.
\<close>

datatype raised = Error string | Interrupt

text \<open>
  \<open>print\<close> raises when the standard output is closed or cannot encode the line. The
  console says, for each place where \<open>main.py\<close> prints on the way through the gate and the
  handlers, whether a \<open>print\<close> there raises and with which message: the two lines before
  the loop of \<open>get_confirmation\<close>, the line of its handler, the listing of the matches of a
  search, and the line of a command handler's \<open>except\<close> branch.
\<close>

record console =
  prompt_print :: "string option"
  confirmation_print :: "string option"
  listing_print :: "string option"
  command_print :: "string option"

text \<open>
  One pass of the loop of \<open>get_confirmation\<close> reads a chunk from the microphone and feeds
  it to the recogniser. What the pass meets is an event: \<open>Fault r\<close>, the pass raises \<open>r\<close>
  (in \<open>stream.read\<close>, \<open>AcceptWaveform\<close>, \<open>Result\<close>, \<open>json.loads\<close>, the reading of the result
  or the echo of the text heard); \<open>NoPhrase\<close>, \<open>AcceptWaveform\<close> answers false; \<open>Phrase t\<close>,
  a phrase is complete, \<open>t\<close> is \<open>result.get("text", "")\<close> and the pass raises nothing.
\<close>

datatype mic_event = Fault raised | NoPhrase | Phrase string

datatype step = Raises raised | Returns bool | Continues

definition confirmation_step :: "mic_event \<Rightarrow> world \<Rightarrow> step \<times> world" where
  "confirmation_step e w =
     (case e of
        Fault r \<Rightarrow> (Raises r, w)
      | NoPhrase \<Rightarrow> (Continues, w)
      | Phrase t \<Rightarrow>
          (let text = lower t
           in if text = [] then (Continues, w)
              else if contains text ''yes'' \<or> contains text ''yeah'' \<or> contains text ''confirm''
              then (Returns True, w)
              else if contains text ''no'' \<or> contains text ''cancel'' \<or> contains text ''nope''
              then (Returns False, w)
              else (Continues, speak ''Please say yes or no'' w)))"

text \<open>
  The loop leaves by one of its two \<open>return\<close> statements or by an exception. On a finite
  list of events the gate is \<open>Waiting\<close> when the events run out: the loop is then blocked
  in \<open>stream.read\<close>. \<open>Raised r\<close>: \<open>r\<close> has been raised and not caught. The events not
  consumed are returned with the outcome.
\<close>

datatype gate = Resolved bool | Waiting | Raised raised

fun listen :: "mic_event list \<Rightarrow> world \<Rightarrow> gate \<times> world \<times> mic_event list" where
  "listen [] w = (Waiting, w, [])"
| "listen (e # es) w =
     (case confirmation_step e w of
        (Raises r, w') \<Rightarrow> (Raised r, w', es)
      | (Returns b, w') \<Rightarrow> (Resolved b, w', es)
      | (Continues, w') \<Rightarrow> listen es w')"

text \<open>
  The \<open>try\<close> block of \<open>get_confirmation\<close>: \<open>speak(prompt)\<close>, the two lines printed, the
  loop. Its handler, \<open>except Exception as e\<close>, prints a line and then returns \<open>False\<close>: an
  exception raised by that \<open>print\<close>, and a \<open>KeyboardInterrupt\<close> raised in the block, leave
  \<open>get_confirmation\<close>.
\<close>

definition confirmation_body ::
  "console \<Rightarrow> string \<Rightarrow> mic_event list \<Rightarrow> world \<Rightarrow> gate \<times> world \<times> mic_event list" where
  "confirmation_body c prompt events w =
     (case prompt_print c of
        Some m \<Rightarrow> (Raised (Error m), speak prompt w, events)
      | None \<Rightarrow> listen events (speak prompt w))"

definition get_confirmation ::
  "console \<Rightarrow> string \<Rightarrow> mic_event list \<Rightarrow> world \<Rightarrow> gate \<times> world \<times> mic_event list" where
  "get_confirmation c prompt events w =
     (case confirmation_body c prompt events w of
        (Raised (Error m), w', es) \<Rightarrow>
          (case confirmation_print c of
             None \<Rightarrow> (Resolved False, w', es)
           | Some m' \<Rightarrow> (Raised (Error m'), w', es))
      | (Raised Interrupt, w', es) \<Rightarrow> (Raised Interrupt, w', es)
      | (Resolved b, w', es) \<Rightarrow> (Resolved b, w', es)
      | (Waiting, w', es) \<Rightarrow> (Waiting, w', es))"

text \<open>
  The exception that is raised inside the \<open>try\<close> block of \<open>get_confirmation\<close>, if one is:
  in the lines printed before the loop, or at the first \<open>Fault\<close> that the loop reaches.
\<close>

fun first_raise :: "mic_event list \<Rightarrow> world \<Rightarrow> raised option" where
  "first_raise [] w = None"
| "first_raise (e # es) w =
     (case confirmation_step e w of
        (Raises r, w') \<Rightarrow> Some r
      | (Returns b, w') \<Rightarrow> None
      | (Continues, w') \<Rightarrow> first_raise es w')"

definition raised_inside :: "console \<Rightarrow> string \<Rightarrow> mic_event list \<Rightarrow> world \<Rightarrow> raised option" where
  "raised_inside c prompt events w =
     (case prompt_print c of
        Some m \<Rightarrow> Some (Error m)
      | None \<Rightarrow> first_raise events (speak prompt w))"

text \<open>
  The chain of handlers in the main loop of \<open>main.py\<close>, for one recognised, non-empty
  utterance. A handler ends with the loop \<open>Listening\<close> again, \<open>Exited\<close> by \<open>break\<close>, or
  \<open>Blocked\<close> in a gate that is still waiting; \<open>Escaped r\<close> when \<open>r\<close> leaves the handler for
  the \<open>except\<close> clauses of the loop. The \<open>except Exception\<close> branch of a handler speaks a
  sentence and prints the error, \<open>on_error\<close>. The collaborators and \<open>speak\<close> do not raise,
  so that branch can be reached only in the handlers that print or ask for confirmation.
\<close>

datatype loop_status = Listening | Exited | Blocked | Escaped raised

definition on_error :: "console \<Rightarrow> string \<Rightarrow> world \<Rightarrow> loop_status \<times> world" where
  "on_error c sentence w =
     (case command_print c of
        None \<Rightarrow> (Listening, speak sentence w)
      | Some m \<Rightarrow> (Escaped (Error m), speak sentence w))"

text \<open>
  The four handlers behind the gate share one shape, \<open>gated\<close>: ask, then run the action
  and speak its result, or speak the cancellation.
\<close>

definition gated ::
  "console \<Rightarrow> string \<Rightarrow> string \<Rightarrow> string \<Rightarrow> (world \<Rightarrow> string \<times> world) \<Rightarrow> mic_event list
     \<Rightarrow> world \<Rightarrow> loop_status \<times> world \<times> mic_event list" where
  "gated c prompt cancelled failed action events w =
     (case get_confirmation c prompt events w of
        (Resolved True, w', es) \<Rightarrow>
          (case action w' of (result, w'') \<Rightarrow> (Listening, speak result w'', es))
      | (Resolved False, w', es) \<Rightarrow> (Listening, speak cancelled w', es)
      | (Waiting, w', es) \<Rightarrow> (Blocked, w', es)
      | (Raised (Error m), w', es) \<Rightarrow>
          (case on_error c failed w' of (status, w'') \<Rightarrow> (status, w'', es))
      | (Raised Interrupt, w', es) \<Rightarrow> (Escaped Interrupt, w', es))"

text \<open>
  \<open>if target: ... else: ...\<close> takes the first branch on a string that is not empty, the
  second on \<open>None\<close> and on the empty string.
\<close>

definition if_target :: "string option \<Rightarrow> (string \<Rightarrow> 'a) \<Rightarrow> 'a \<Rightarrow> 'a" where
  "if_target target then_branch else_branch =
     (case target of
        None \<Rightarrow> else_branch
      | Some t \<Rightarrow> if t = [] then else_branch else then_branch t)"

definition handle_volume :: "os_env \<Rightarrow> string option \<Rightarrow> world \<Rightarrow> world" where
  "handle_volume env target w =
     if_target target
       (\<lambda>t. case py_int t of
               Some level \<Rightarrow>
                 if 0 \<le> level \<and> level \<le> 100
                 then (case set_volume env level w of (result, w') \<Rightarrow> speak result w')
                 else speak ''Volume must be between 0 and 100'' w
             | None \<Rightarrow> speak ''Please specify a valid number for volume'' w)
       (speak ''Please specify a volume level'' w)"

definition handle_app ::
  "(string \<Rightarrow> world \<Rightarrow> string \<times> world) \<Rightarrow> string \<Rightarrow> string option \<Rightarrow> world \<Rightarrow> world" where
  "handle_app app_call question target w =
     if_target target
       (\<lambda>t. case app_call t w of (result, w') \<Rightarrow> speak result w')
       (speak question w)"

text \<open>
  The search handler prints the matches after it has spoken their number; a \<open>print\<close> that
  raises takes it to its \<open>except\<close> branch.
\<close>

definition handle_search ::
  "console \<Rightarrow> os_env \<Rightarrow> string option \<Rightarrow> world \<Rightarrow> loop_status \<times> world" where
  "handle_search c env target w =
     if_target target
       (\<lambda>t. case search_file env t of
               [] \<Rightarrow> (Listening, speak (''No files found matching '' @ t) w)
             | m # ms \<Rightarrow>
                 (let w' = speak (''Found '' @ str_int (int (length (m # ms))) @ '' files'') w
                  in case listing_print c of
                       None \<Rightarrow> (Listening, w')
                     | Some e \<Rightarrow> on_error c ''Error searching for file'' w'))
       (Listening, speak ''What file would you like me to search for?'' w)"

definition handle_delete ::
  "console \<Rightarrow> os_env \<Rightarrow> string option \<Rightarrow> mic_event list \<Rightarrow> world
     \<Rightarrow> loop_status \<times> world \<times> mic_event list" where
  "handle_delete c env target events w =
     if_target target
       (\<lambda>t. case search_file env t of
               [] \<Rightarrow> (Listening, speak (''Could not find file '' @ t) w, events)
             | m # ms \<Rightarrow>
                 gated c (''Are you sure you want to delete '' @ t @ ''?'') ''Delete cancelled''
                   ''Error deleting file'' (delete_file env m) events w)
       (Listening, speak ''What file would you like me to delete?'' w, events)"

definition handle_openfile :: "os_env \<Rightarrow> string option \<Rightarrow> world \<Rightarrow> world" where
  "handle_openfile env target w =
     if_target target
       (\<lambda>t. case search_file env t of
               [] \<Rightarrow> speak (''Could not find file '' @ t) w
             | m # ms \<Rightarrow> (case open_file env m w of (result, w') \<Rightarrow> speak result w'))
       (speak ''What file would you like me to open?'' w)"

definition handle_utterance ::
  "console \<Rightarrow> os_env \<Rightarrow> string \<Rightarrow> mic_event list \<Rightarrow> world
     \<Rightarrow> loop_status \<times> world \<times> mic_event list" where
  "handle_utterance c env text events w =
     (case parse_command text of
        (Some Exit, target) \<Rightarrow> (Exited, speak ''Goodbye'' w, events)
      | (Some Volume, target) \<Rightarrow> (Listening, handle_volume env target w, events)
      | (Some Mute, target) \<Rightarrow>
          (case mute env w of (result, w') \<Rightarrow> (Listening, speak result w', events))
      | (Some Unmute, target) \<Rightarrow>
          (case unmute env w of (result, w') \<Rightarrow> (Listening, speak result w', events))
      | (Some Shutdown, target) \<Rightarrow>
          gated c ''Are you sure you want to shut down?'' ''Shutdown cancelled''
            ''Error with shutdown command'' (shutdown_system env) events w
      | (Some Restart, target) \<Rightarrow>
          gated c ''Are you sure you want to restart?'' ''Restart cancelled''
            ''Error with restart command'' (restart_system env) events w
      | (Some Sleep, target) \<Rightarrow>
          gated c ''Are you sure you want to sleep?'' ''Sleep cancelled''
            ''Error with sleep command'' (sleep_system env) events w
      | (Some Open, target) \<Rightarrow>
          (Listening, handle_app (open_app env) ''What would you like me to open?'' target w,
           events)
      | (Some Close, target) \<Rightarrow>
          (Listening, handle_app (close_app env) ''What would you like me to close?'' target w,
           events)
      | (Some Search, target) \<Rightarrow>
          (case handle_search c env target w of (status, w') \<Rightarrow> (status, w', events))
      | (Some Delete, target) \<Rightarrow> handle_delete c env target events w
      | (Some OpenFile, target) \<Rightarrow> (Listening, handle_openfile env target w, events)
      | (None, target) \<Rightarrow> (Listening, speak (''You said '' @ text @ '', sir'') w, events))"

text \<open>A console on which every line is printed, and one whose output is closed.\<close>

definition quiet_console :: console where
  "quiet_console = \<lparr>prompt_print = None, confirmation_print = None, listing_print = None,
                     command_print = None\<rparr>"

definition closed_console :: console where
  "closed_console =
     \<lparr>prompt_print = Some ''I/O operation on closed file.'',
      confirmation_print = Some ''I/O operation on closed file.'',
      listing_print = Some ''I/O operation on closed file.'',
      command_print = Some ''I/O operation on closed file.''\<rparr>"

subsection \<open>Answers by token and by substring\<close>

text \<open>
  An utterance says yes (no) when one of the words is among its stripped tokens; the
  gate hears yes (no) when one of the words occurs somewhere in the lower-cased text,
  which is the test \<open>"yes" in text\<close> of the source. Every text that contains \<open>nope\<close>
  contains \<open>no\<close>, so the third word of the source's second test adds nothing.
\<close>

definition says_yes :: "string \<Rightarrow> bool" where
  "says_yes t = (''yes'' \<in> set (cleaned_words t) \<or> ''yeah'' \<in> set (cleaned_words t)
                 \<or> ''confirm'' \<in> set (cleaned_words t))"

definition says_no :: "string \<Rightarrow> bool" where
  "says_no t = (''no'' \<in> set (cleaned_words t) \<or> ''cancel'' \<in> set (cleaned_words t)
                \<or> ''nope'' \<in> set (cleaned_words t))"

definition hears_yes :: "string \<Rightarrow> bool" where
  "hears_yes t = (contains (lower t) ''yes'' \<or> contains (lower t) ''yeah''
                  \<or> contains (lower t) ''confirm'')"

definition hears_no :: "string \<Rightarrow> bool" where
  "hears_no t = (contains (lower t) ''no'' \<or> contains (lower t) ''cancel'')"

text \<open>A world in which calls are executed, not announced.\<close>

definition armed_world :: world where
  "armed_world = \<lparr>announce_only = False, os_calls = [], said = []\<rparr>"

section \<open>The task store\<close>

text \<open>
  \<open>task_system.py\<close>. A task is the dictionary that \<open>add_task\<close> builds, with its six keys
  as fields (\<open>id'\<close> is the key \<open>id\<close>). The file \<open>TASK_FILE\<close> (\<open>sydny_tasks.json\<close>) is absent, unreadable
  (opening or parsing it raises), or holds a document with an optional \<open>tasks\<close> list and the
  time of the last update; \<open>json.dump\<close> and \<open>json.load\<close> carry the integers, strings,
  booleans and \<open>None\<close> of a task unchanged, so a document holds the tasks themselves.
\<close>

record task =
  id' :: int
  description :: string
  priority :: string
  completed :: bool
  created :: string
  completed_at :: "string option"

datatype file_state = Absent | Unreadable | Document "task list option" string

record task_manager =
  tasks :: "task list"
  TASK_FILE :: file_state

text \<open>
  What one call meets outside the program: the clock (\<open>datetime.now().isoformat()\<close> when
  the task is stamped and again when the document is written) and the disk. \<open>Written\<close>: the
  document replaces the file. \<open>OpenFails\<close>: \<open>open\<close> raises and the file stays as it was.
  \<open>DumpFails\<close>: the file has been truncated and \<open>json.dump\<close> raises part way.
\<close>

datatype disk = Written | OpenFails | DumpFails

record io =
  now :: string
  saved_at :: string
  disk :: disk

definition load_tasks :: "task_manager \<Rightarrow> task_manager" where
  "load_tasks tm =
     (case TASK_FILE tm of
        Absent \<Rightarrow> tm\<lparr>tasks := []\<rparr>
      | Unreadable \<Rightarrow> tm\<lparr>tasks := []\<rparr>
      | Document ts stamp \<Rightarrow> tm\<lparr>tasks := (case ts of None \<Rightarrow> [] | Some l \<Rightarrow> l)\<rparr>)"

text \<open>\<open>TaskManager()\<close> on a given state of the file.\<close>

definition TaskManager :: "file_state \<Rightarrow> task_manager" where
  "TaskManager f = load_tasks \<lparr>tasks = [], TASK_FILE = f\<rparr>"

definition save_tasks :: "io \<Rightarrow> task_manager \<Rightarrow> bool \<times> task_manager" where
  "save_tasks x tm =
     (case disk x of
        Written \<Rightarrow> (True, tm\<lparr>TASK_FILE := Document (Some (tasks tm)) (saved_at x)\<rparr>)
      | OpenFails \<Rightarrow> (False, tm)
      | DumpFails \<Rightarrow> (False, tm\<lparr>TASK_FILE := Unreadable\<rparr>))"

definition add_task :: "io \<Rightarrow> string \<Rightarrow> string \<Rightarrow> task_manager \<Rightarrow> string \<times> task_manager" where
  "add_task x description' priority' tm =
     (if description' = [] then (''Invalid task description'', tm)
      else (let p = (if priority' \<in> set [''low'', ''normal'', ''high''] then priority'
                     else ''normal'');
                t = \<lparr>id' = int (length (tasks tm)) + 1,
                     description = strip description',
                     priority = p,
                     completed = False,
                     created = now x,
                     completed_at = None\<rparr>;
                tm' = tm\<lparr>tasks := tasks tm @ [t]\<rparr>
            in (''Added task: '' @ description', snd (save_tasks x tm'))))"

text \<open>
  \<open>complete_task\<close> and \<open>delete_task\<close> look for the first task with the given id. The first
  changes that task in place; \<open>update_first\<close> is the list with the first element that
  satisfies the test changed.
\<close>

fun update_first :: "('a \<Rightarrow> bool) \<Rightarrow> ('a \<Rightarrow> 'a) \<Rightarrow> 'a list \<Rightarrow> 'a list" where
  "update_first P f [] = []"
| "update_first P f (x # xs) = (if P x then f x # xs else x # update_first P f xs)"

definition complete_task :: "io \<Rightarrow> int \<Rightarrow> task_manager \<Rightarrow> string \<times> task_manager" where
  "complete_task x task_id tm =
     (case find (\<lambda>t. id' t = task_id) (tasks tm) of
        None \<Rightarrow> (''Task '' @ str_int task_id @ '' not found'', tm)
      | Some t \<Rightarrow>
          if completed t then (''Task '' @ str_int task_id @ '' is already completed'', tm)
          else (let tm' = tm\<lparr>tasks :=
                             update_first (\<lambda>t. id' t = task_id)
                               (\<lambda>t. t\<lparr>completed := True, completed_at := Some (now x)\<rparr>)
                               (tasks tm)\<rparr>
                in (''Completed task: '' @ description t, snd (save_tasks x tm'))))"

text \<open>
  \<open>for idx, t in enumerate(self.tasks, 1): t['id'] = idx\<close>, and \<open>list.remove\<close>, which
  deletes the first element equal to the task found.
\<close>

fun renumber :: "int \<Rightarrow> task list \<Rightarrow> task list" where
  "renumber idx [] = []"
| "renumber idx (t # ts) = t\<lparr>id' := idx\<rparr> # renumber (idx + 1) ts"

definition delete_task :: "io \<Rightarrow> int \<Rightarrow> task_manager \<Rightarrow> string \<times> task_manager" where
  "delete_task x task_id tm =
     (case find (\<lambda>t. id' t = task_id) (tasks tm) of
        None \<Rightarrow> (''Task '' @ str_int task_id @ '' not found'', tm)
      | Some t \<Rightarrow>
          (let tm' = tm\<lparr>tasks := renumber 1 (remove1 t (tasks tm))\<rparr>
           in (''Deleted task: '' @ description t, snd (save_tasks x tm'))))"

text \<open>The ids of a task list are \<open>1, 2, \<dots>, N\<close> in list order.\<close>

definition dense_ids :: "task list \<Rightarrow> bool" where
  "dense_ids ts = (map id' ts = map int [1..<Suc (length ts)])"

text \<open>
  A sequence of \<open>add_task\<close> calls, each with what it meets outside the program, its
  description and its priority; and the task that a call adds to a store of \<open>n\<close> tasks.
\<close>

fun add_tasks :: "(io \<times> string \<times> string) list \<Rightarrow> task_manager \<Rightarrow> task_manager" where
  "add_tasks [] tm = tm"
| "add_tasks ((x, d, p) # calls) tm = add_tasks calls (snd (add_task x d p tm))"

fun new_tasks :: "nat \<Rightarrow> (io \<times> string \<times> string) list \<Rightarrow> task list" where
  "new_tasks n [] = []"
| "new_tasks n ((x, d, p) # calls) =
     \<lparr>id' = int n + 1,
      description = strip d,
      priority = (if p \<in> set [''low'', ''normal'', ''high''] then p else ''normal''),
      completed = False,
      created = now x,
      completed_at = None\<rparr> # new_tasks (Suc n) calls"

text \<open>
  Three calls in the manner of the module's own test run (one description with spaces
  around it, one priority outside the three allowed), and what a later call meets.
\<close>

definition sample_calls :: "(io \<times> string \<times> string) list" where
  "sample_calls =
     [(\<lparr>now = ''2026-01-05T09:00:00'', saved_at = ''2026-01-05T09:00:01'', disk = Written\<rparr>,
       ''Buy groceries'', ''normal''),
      (\<lparr>now = ''2026-01-05T09:01:00'', saved_at = ''2026-01-05T09:01:01'', disk = Written\<rparr>,
       '' Finish SYDNY project '', ''high''),
      (\<lparr>now = ''2026-01-05T09:02:00'', saved_at = ''2026-01-05T09:02:01'', disk = Written\<rparr>,
       ''Call mom'', ''urgent'')]"

definition sample_io :: io where
  "sample_io = \<lparr>now = ''2026-01-06T10:00:00'', saved_at = ''2026-01-06T10:00:01'', disk = Written\<rparr>"

section \<open>Evaluation\<close>

lemmas string_defs = lower_def lower_char_def isspace_def split_def isdigit_def

lemmas parse_defs = parse_command_def cleaned_words_def filler_words_def
  match_openfile_def match_open_def match_close_def match_search_def match_delete_def
  match_volume_def match_simple_def

section \<open>Properties of the parser\<close>

lemma split_from_nonempty: "w \<in> set (split_from cur s) \<Longrightarrow> w \<noteq> []"
  by (induction s arbitrary: cur) (auto split: if_splits)

lemma cleaned_words_nonempty: "w \<in> set (cleaned_words text) \<Longrightarrow> w \<noteq> []"
  using split_from_nonempty by (auto simp: cleaned_words_def split_def)

lemma match_simple_Nil: "match_simple [] = (None, None)"
  by (simp add: match_simple_def)

lemma match_volume_Nil: "match_volume [] = (None, None)"
  by (simp add: match_volume_def match_simple_Nil)

lemma match_delete_Nil: "match_delete [] = (None, None)"
  by (simp add: match_delete_def match_volume_Nil)

lemma match_search_Nil: "match_search [] = (None, None)"
  by (simp add: match_search_def match_delete_Nil)

lemma match_close_Nil: "match_close [] = (None, None)"
  by (simp add: match_close_def match_search_Nil)

lemma match_open_Nil: "match_open [] = (None, None)"
  by (simp add: match_open_def match_close_Nil)

text \<open>
  C3. An utterance whose stripped tokens contain \<open>open\<close>, \<open>file\<close> and at least one other
  token is parsed as \<open>OpenFile\<close>, with the other tokens, in their order and joined by
  single spaces, as the target; it is never parsed as \<open>Open\<close>.
\<close>

theorem parse_command_openfile:
  assumes "''open'' \<in> set (cleaned_words text)"
    and "''file'' \<in> set (cleaned_words text)"
    and "\<exists>w \<in> set (cleaned_words text). w \<noteq> ''open'' \<and> w \<noteq> ''file''"
  shows "parse_command text =
           (Some OpenFile,
            Some (join '' '' [w \<leftarrow> cleaned_words text. w \<noteq> ''open'' \<and> w \<noteq> ''file'']))
         \<and> fst (parse_command text) \<noteq> Some Open"
proof -
  let ?rest = "[w \<leftarrow> cleaned_words text. w \<notin> set [''open'', ''file'']]"
  have same: "?rest = [w \<leftarrow> cleaned_words text. w \<noteq> ''open'' \<and> w \<noteq> ''file'']"
    by simp
  from assms(3) have "?rest \<noteq> []"
    by (auto simp: filter_empty_conv)
  with assms(1,2) have "parse_command text = (Some OpenFile, Some (join '' '' ?rest))"
    unfolding parse_command_def match_openfile_def Let_def by simp
  then show ?thesis
    unfolding same by simp
qed

theorem parse_command_openfile_witness:
  "parse_command ''please open the file quarterly report'' =
     (Some OpenFile, Some ''quarterly report'')"
  using parse_command_openfile [of "''please open the file quarterly report''"]
  by (simp add: cleaned_words_def filler_words_def string_defs)


lemma join_tokens_nonempty: "ws \<noteq> [] \<Longrightarrow> \<forall>w \<in> set ws. w \<noteq> [] \<Longrightarrow> join sep ws \<noteq> []"
  by (cases "(sep, ws)" rule: join.cases) auto

lemma filter_keeps: "v \<in> set cw \<Longrightarrow> v \<notin> set ks \<Longrightarrow> [w \<leftarrow> cw. w \<notin> set ks] \<noteq> []"
  by (auto simp: filter_empty_conv)

lemma remove1_keeps: "v \<in> set cw \<Longrightarrow> v \<noteq> k \<Longrightarrow> remove1 k cw \<noteq> []"
  by (metis empty_iff in_set_remove1 list.set(1))

lemma match_delete_volume:
  "''volume'' \<in> set cw \<Longrightarrow> match_delete cw =
     (if ''delete'' \<in> set cw
      then (Some Delete, Some (join '' '' [w \<leftarrow> cw. w \<notin> set [''delete'', ''file'']]))
      else match_volume cw)"
  using filter_keeps [of "''volume''" cw "[''delete'', ''file'']"]
  by (simp add: match_delete_def Let_def)

lemma match_search_volume:
  "''volume'' \<in> set cw \<Longrightarrow> match_search cw =
     (if ''search'' \<in> set cw \<or> ''find'' \<in> set cw
      then (Some Search, Some (join '' '' [w \<leftarrow> cw. w \<notin> set [''search'', ''find'', ''file'']]))
      else match_delete cw)"
  using filter_keeps [of "''volume''" cw "[''search'', ''find'', ''file'']"]
  by (simp add: match_search_def Let_def)

lemma match_close_volume:
  "''volume'' \<in> set cw \<Longrightarrow> match_close cw =
     (if ''close'' \<in> set cw then (Some Close, Some (join '' '' (remove1 ''close'' cw)))
      else match_search cw)"
  using remove1_keeps [of "''volume''" cw "''close''"]
  by (simp add: match_close_def Let_def)

lemma match_open_volume:
  "''volume'' \<in> set cw \<Longrightarrow> match_open cw =
     (if ''open'' \<in> set cw then (Some Open, Some (join '' '' (remove1 ''open'' cw)))
      else match_close cw)"
  using remove1_keeps [of "''volume''" cw "''open''"]
  by (simp add: match_open_def Let_def)

lemma match_openfile_volume:
  "''volume'' \<in> set cw \<Longrightarrow> match_openfile cw =
     (if ''file'' \<in> set cw \<and> ''open'' \<in> set cw
      then (Some OpenFile, Some (join '' '' [w \<leftarrow> cw. w \<notin> set [''open'', ''file'']]))
      else match_open cw)"
  using filter_keeps [of "''volume''" cw "[''open'', ''file'']"]
  by (simp add: match_openfile_def Let_def)

lemma match_volume_hit:
  "''volume'' \<in> set cw \<Longrightarrow> match_volume cw = (Some Volume, find isdigit (remove1 ''volume'' cw))"
  by (simp add: match_volume_def split: option.splits)

text \<open>
  C7. An utterance whose stripped tokens contain \<open>volume\<close> and on which none of the earlier
  statements (open-file, open, close, search/find, delete) returns its intent is parsed as
  \<open>Volume\<close>; the target is the first token that is all digits among the tokens left when
  one \<open>volume\<close> is removed, and \<open>None\<close> when there is none.
\<close>

theorem parse_command_volume:
  assumes "''volume'' \<in> set (cleaned_words text)"
    and "fst (parse_command text) \<notin> {Some OpenFile, Some Open, Some Close, Some Search, Some Delete}"
  shows "parse_command text =
           (Some Volume, find isdigit (remove1 ''volume'' (cleaned_words text)))"
  using assms
  by (simp add: parse_command_def match_openfile_volume match_open_volume match_close_volume
      match_search_volume match_delete_volume match_volume_hit split: if_splits)

theorem parse_command_volume_witness:
  "parse_command ''set volume to 50'' = (Some Volume, Some ''50'')
   \<and> parse_command ''volume'' = (Some Volume, None)"
  using parse_command_volume [of "''set volume to 50''"] parse_command_volume [of "''volume''"]
  by (simp add: parse_defs string_defs)


lemma match_openfile_empty:
  "''file'' \<in> set cw \<Longrightarrow> ''open'' \<in> set cw \<Longrightarrow> [w \<leftarrow> cw. w \<notin> set [''open'', ''file'']] = []
   \<Longrightarrow> match_openfile cw = (None, None)"
  by (simp add: match_openfile_def match_open_Nil)

lemma match_open_empty:
  "''open'' \<in> set cw \<Longrightarrow> remove1 ''open'' cw = [] \<Longrightarrow> match_open cw = (None, None)"
  by (simp add: match_open_def match_close_Nil)

lemma match_close_empty:
  "''close'' \<in> set cw \<Longrightarrow> remove1 ''close'' cw = [] \<Longrightarrow> match_close cw = (None, None)"
  by (simp add: match_close_def match_search_Nil)

lemma match_search_empty:
  "''search'' \<in> set cw \<or> ''find'' \<in> set cw \<Longrightarrow>
   [w \<leftarrow> cw. w \<notin> set [''search'', ''find'', ''file'']] = [] \<Longrightarrow> match_search cw = (None, None)"
  by (simp add: match_search_def match_delete_Nil)

lemma match_delete_empty:
  "''delete'' \<in> set cw \<Longrightarrow> [w \<leftarrow> cw. w \<notin> set [''delete'', ''file'']] = []
   \<Longrightarrow> match_delete cw = (None, None)"
  by (simp add: match_delete_def match_volume_Nil)

text \<open>
  C8. A statement whose keyword test succeeds and whose removal leaves no token does not
  return its intent: the statements after it see the empty list, and the parser returns
  \<open>(None, None)\<close>. In particular an utterance whose only stripped token is \<open>open\<close> is
  parsed as \<open>(None, None)\<close>, never as \<open>Open\<close> with an empty target.
\<close>

theorem parse_command_empty_remainder:
  "(cleaned_words text = [''open''] \<longrightarrow> parse_command text = (None, None))
   \<and> (''file'' \<in> set (cleaned_words text) \<and> ''open'' \<in> set (cleaned_words text)
        \<and> [w \<leftarrow> cleaned_words text. w \<notin> set [''open'', ''file'']] = []
      \<longrightarrow> parse_command text = (None, None))
   \<and> (''file'' \<notin> set (cleaned_words text) \<and> ''open'' \<in> set (cleaned_words text)
        \<and> remove1 ''open'' (cleaned_words text) = []
      \<longrightarrow> parse_command text = (None, None))
   \<and> (''open'' \<notin> set (cleaned_words text) \<and> ''close'' \<in> set (cleaned_words text)
        \<and> remove1 ''close'' (cleaned_words text) = []
      \<longrightarrow> parse_command text = (None, None))
   \<and> (''open'' \<notin> set (cleaned_words text) \<and> ''close'' \<notin> set (cleaned_words text)
        \<and> (''search'' \<in> set (cleaned_words text) \<or> ''find'' \<in> set (cleaned_words text))
        \<and> [w \<leftarrow> cleaned_words text. w \<notin> set [''search'', ''find'', ''file'']] = []
      \<longrightarrow> parse_command text = (None, None))
   \<and> (''open'' \<notin> set (cleaned_words text) \<and> ''close'' \<notin> set (cleaned_words text)
        \<and> ''search'' \<notin> set (cleaned_words text) \<and> ''find'' \<notin> set (cleaned_words text)
        \<and> ''delete'' \<in> set (cleaned_words text)
        \<and> [w \<leftarrow> cleaned_words text. w \<notin> set [''delete'', ''file'']] = []
      \<longrightarrow> parse_command text = (None, None))"
proof -
  let ?cw = "cleaned_words text"
  have only_open: "parse_command text = (None, None)" if "?cw = [''open'']"
    using that by (simp add: parse_command_def match_openfile_def match_open_def match_close_Nil)
  have r1: "parse_command text = (None, None)"
    if "''file'' \<in> set ?cw" "''open'' \<in> set ?cw" "[w \<leftarrow> ?cw. w \<notin> set [''open'', ''file'']] = []"
    using that by (simp only: parse_command_def match_openfile_empty)
  have r2: "parse_command text = (None, None)"
    if "''file'' \<notin> set ?cw" "''open'' \<in> set ?cw" "remove1 ''open'' ?cw = []"
    using that match_open_empty [of ?cw] by (simp add: parse_command_def match_openfile_def)
  have r3: "parse_command text = (None, None)"
    if "''open'' \<notin> set ?cw" "''close'' \<in> set ?cw" "remove1 ''close'' ?cw = []"
    using that match_close_empty [of ?cw]
    by (simp add: parse_command_def match_openfile_def match_open_def)
  have r4: "parse_command text = (None, None)"
    if "''open'' \<notin> set ?cw" "''close'' \<notin> set ?cw"
      "''search'' \<in> set ?cw \<or> ''find'' \<in> set ?cw"
      "[w \<leftarrow> ?cw. w \<notin> set [''search'', ''find'', ''file'']] = []"
    using that match_search_empty [of ?cw]
    by (simp add: parse_command_def match_openfile_def match_open_def match_close_def)
  have r5: "parse_command text = (None, None)"
    if "''open'' \<notin> set ?cw" "''close'' \<notin> set ?cw" "''search'' \<notin> set ?cw"
      "''find'' \<notin> set ?cw" "''delete'' \<in> set ?cw"
      "[w \<leftarrow> ?cw. w \<notin> set [''delete'', ''file'']] = []"
    using that match_delete_empty [of ?cw]
    by (simp add: parse_command_def match_openfile_def match_open_def match_close_def
        match_search_def)
  show ?thesis
    using only_open r1 r2 r3 r4 r5 by blast
qed

theorem parse_command_empty_remainder_witness:
  "parse_command ''open'' = (None, None) \<and> parse_command ''please open'' = (None, None)
   \<and> parse_command ''open the file'' = (None, None)
   \<and> parse_command ''find a file'' = (None, None)"
proof -
  have "cleaned_words ''open'' = [''open'']"
    and "cleaned_words ''please open'' = [''open'']"
    and "cleaned_words ''open the file'' = [''open'', ''file'']"
    and "cleaned_words ''find a file'' = [''find'', ''file'']"
    by (simp_all add: cleaned_words_def filler_words_def string_defs)
  then show ?thesis
    using parse_command_empty_remainder [of "''open''"]
      parse_command_empty_remainder [of "''please open''"]
      parse_command_empty_remainder [of "''open the file''"]
      parse_command_empty_remainder [of "''find a file''"]
    by simp
qed

lemma target_ok_simple: "target_ok (match_simple cw)"
  by (simp add: target_ok_def match_simple_def)

lemma target_ok_volume: "target_ok (match_volume cw)"
  using target_ok_simple [of cw]
  by (simp add: match_volume_def target_ok_def split: option.splits)

lemma target_ok_delete: "\<forall>w \<in> set cw. w \<noteq> [] \<Longrightarrow> target_ok (match_delete cw)"
  using target_ok_volume [of cw] target_ok_volume [of "[]"]
    join_tokens_nonempty [of "[w \<leftarrow> cw. w \<notin> set [''delete'', ''file'']]" "'' ''"]
  by (simp add: match_delete_def Let_def) (simp add: target_ok_def has_target_def)

lemma target_ok_search: "\<forall>w \<in> set cw. w \<noteq> [] \<Longrightarrow> target_ok (match_search cw)"
  using target_ok_delete [of cw] target_ok_delete [of "[]"]
    join_tokens_nonempty [of "[w \<leftarrow> cw. w \<notin> set [''search'', ''find'', ''file'']]" "'' ''"]
  by (simp add: match_search_def Let_def) (simp add: target_ok_def has_target_def)

lemma remove1_tokens: "\<forall>w \<in> set cw. w \<noteq> [] \<Longrightarrow> \<forall>w \<in> set (remove1 k cw). w \<noteq> []"
  by (meson notin_set_remove1)

lemma target_ok_close: "\<forall>w \<in> set cw. w \<noteq> [] \<Longrightarrow> target_ok (match_close cw)"
  using target_ok_search [of cw] target_ok_search [of "[]"] remove1_tokens [of cw "''close''"]
    join_tokens_nonempty [of "remove1 ''close'' cw" "'' ''"]
  by (simp add: match_close_def Let_def) (simp add: target_ok_def has_target_def)

lemma target_ok_open: "\<forall>w \<in> set cw. w \<noteq> [] \<Longrightarrow> target_ok (match_open cw)"
  using target_ok_close [of cw] target_ok_close [of "[]"] remove1_tokens [of cw "''open''"]
    join_tokens_nonempty [of "remove1 ''open'' cw" "'' ''"]
  by (simp add: match_open_def Let_def) (simp add: target_ok_def has_target_def)

lemma target_ok_openfile: "\<forall>w \<in> set cw. w \<noteq> [] \<Longrightarrow> target_ok (match_openfile cw)"
  using target_ok_open [of cw] target_ok_open [of "[]"]
    join_tokens_nonempty [of "[w \<leftarrow> cw. w \<notin> set [''open'', ''file'']]" "'' ''"]
  by (simp add: match_openfile_def Let_def) (simp add: target_ok_def has_target_def)

text \<open>
  C9. Whenever the parser returns \<open>Open\<close>, \<open>Close\<close>, \<open>OpenFile\<close>, \<open>Search\<close> or \<open>Delete\<close>, the
  target is a string and is not empty.
\<close>

theorem parse_command_target_nonempty:
  assumes "fst (parse_command text)
             \<in> {Some Open, Some Close, Some OpenFile, Some Search, Some Delete}"
  shows "\<exists>t. snd (parse_command text) = Some t \<and> t \<noteq> []"
proof -
  have "\<forall>w \<in> set (cleaned_words text). w \<noteq> []"
    using cleaned_words_nonempty by blast
  then have "target_ok (parse_command text)"
    unfolding parse_command_def by (rule target_ok_openfile)
  with assms have "has_target (parse_command text)"
    unfolding target_ok_def by blast
  then show ?thesis
    by (auto simp: has_target_def split: option.splits)
qed

theorem parse_command_target_nonempty_witness:
  "fst (parse_command ''could you close the notepad'') = Some Close
   \<and> (\<exists>t. snd (parse_command ''could you close the notepad'') = Some t \<and> t \<noteq> [])"
  using parse_command_target_nonempty [of "''could you close the notepad''"]
  by (simp add: parse_defs string_defs)

section \<open>Properties of the system-control module\<close>




text \<open>
  C4. \<open>search_file\<close> is documented to return up to five matches, but the bound is tested
  only between folders: a folder that holds six matching files gives six paths.
\<close>

theorem search_file_more_than_five:
  "length (search_file sample_env ''report'') = 6"
  by (simp add: search_file_def get_search_paths_def sample_env_def)

section \<open>Properties of the confirmation gate\<close>

lemma split_from_sublist: "w \<in> set (split_from cur s) \<Longrightarrow> sublist w (cur @ s)"
proof (induction s arbitrary: cur)
  case Nil
  then show ?case by (auto split: if_splits)
next
  case (Cons c cs)
  show ?case
  proof (cases "isspace c")
    case True
    from Cons.prems True have "w = cur \<or> w \<in> set (split_from [] cs)"
      by (auto split: if_splits)
    then show ?thesis
    proof
      assume "w = cur"
      then show ?thesis by (metis append_Nil sublist_appendI)
    next
      assume "w \<in> set (split_from [] cs)"
      then have "sublist w cs" using Cons.IH [of "[]"] by simp
      then obtain ps ss where "cs = ps @ w @ ss" by (auto simp: sublist_def)
      then have "cur @ c # cs = (cur @ c # ps) @ w @ ss" by simp
      then show ?thesis unfolding sublist_def by blast
    qed
  next
    case False
    with Cons.prems have "w \<in> set (split_from (cur @ [c]) cs)" by simp
    then have "sublist w ((cur @ [c]) @ cs)" by (rule Cons.IH)
    then show ?thesis by simp
  qed
qed

lemma token_contained: "w \<in> set (cleaned_words t) \<Longrightarrow> contains (lower t) w"
  using split_from_sublist [of w "[]" "lower t"]
  by (simp add: cleaned_words_def split_def contains_def)

lemma says_yes_hears: "says_yes t \<Longrightarrow> hears_yes t"
  unfolding says_yes_def hears_yes_def using token_contained by blast

lemma nope_no: "contains s ''nope'' \<Longrightarrow> contains s ''no''"
proof -
  assume "contains s ''nope''"
  then obtain ps ss where "s = ps @ ''nope'' @ ss" by (auto simp: contains_def sublist_def)
  then have "s = ps @ ''no'' @ (''pe'' @ ss)" by simp
  then show ?thesis unfolding contains_def sublist_def by blast
qed

lemma says_no_hears: "says_no t \<Longrightarrow> hears_no t"
  unfolding says_no_def hears_no_def using token_contained nope_no by blast

lemma step_phrase:
  "lower t \<noteq> [] \<Longrightarrow> confirmation_step (Phrase t) w =
     (if hears_yes t then (Returns True, w)
      else if hears_no t then (Returns False, w)
      else (Continues, speak ''Please say yes or no'' w))"
  using nope_no [of "lower t"]
  by (auto simp: confirmation_step_def hears_yes_def hears_no_def Let_def)

text \<open>
  C1, as the code has it. A recognised, non-empty utterance resolves the gate to true
  exactly when its lower-cased text contains \<open>yes\<close>, \<open>yeah\<close> or \<open>confirm\<close> as a substring,
  and to false exactly when it contains none of these and contains \<open>no\<close> or \<open>cancel\<close> as a
  substring; any other such utterance makes the gate say \<open>Please say yes or no\<close> and go on
  waiting. In particular an utterance with \<open>yes\<close>, \<open>yeah\<close> or \<open>confirm\<close> among its stripped
  tokens resolves the gate to true, and one with \<open>no\<close>, \<open>cancel\<close> or \<open>nope\<close> among them and
  none of the three affirmative words anywhere in its text resolves it to false.
\<close>

theorem confirmation_by_substring:
  assumes "lower t \<noteq> []"
  shows "(fst (confirmation_step (Phrase t) w) = Returns True \<longleftrightarrow> hears_yes t)
    \<and> (fst (confirmation_step (Phrase t) w) = Returns False \<longleftrightarrow> \<not> hears_yes t \<and> hears_no t)
    \<and> (\<not> hears_yes t \<and> \<not> hears_no t \<longrightarrow>
         confirmation_step (Phrase t) w = (Continues, speak ''Please say yes or no'' w)
         \<and> listen (Phrase t # es) w = listen es (speak ''Please say yes or no'' w))
    \<and> (says_yes t \<longrightarrow> listen (Phrase t # es) w = (Resolved True, w, es))
    \<and> (says_no t \<and> \<not> hears_yes t \<longrightarrow> listen (Phrase t # es) w = (Resolved False, w, es))"
proof -
  note step = step_phrase [OF assms, of w]
  have a: "fst (confirmation_step (Phrase t) w) = Returns True \<longleftrightarrow> hears_yes t"
    by (simp add: step)
  have b: "fst (confirmation_step (Phrase t) w) = Returns False \<longleftrightarrow> \<not> hears_yes t \<and> hears_no t"
    by (simp add: step)
  have c: "confirmation_step (Phrase t) w = (Continues, speak ''Please say yes or no'' w)
         \<and> listen (Phrase t # es) w = listen es (speak ''Please say yes or no'' w)"
    if "\<not> hears_yes t" "\<not> hears_no t"
    using that by (simp add: step)
  have d: "listen (Phrase t # es) w = (Resolved True, w, es)" if "says_yes t"
    using says_yes_hears [OF that] by (simp add: step)
  have e: "listen (Phrase t # es) w = (Resolved False, w, es)" if "says_no t" "\<not> hears_yes t"
    using says_no_hears [OF that(1)] that(2) by (simp add: step)
  show ?thesis
    using a b c d e by blast
qed

lemmas gate_defs = confirmation_step_def contains_def sublist_code speak_def
  hears_yes_def hears_no_def

theorem confirmation_by_substring_witness:
  "listen [Phrase ''yes''] armed_world = (Resolved True, armed_world, [])
   \<and> listen [Phrase ''nope''] armed_world = (Resolved False, armed_world, [])
   \<and> listen [Phrase ''what time is it'', Phrase ''yes''] armed_world =
       (Resolved True, speak ''Please say yes or no'' armed_world, [])"
proof -
  have y: "says_yes ''yes''" and n: "says_no ''nope''" and ny: "\<not> hears_yes ''nope''"
    and u: "\<not> hears_yes ''what time is it''" "\<not> hears_no ''what time is it''"
    by (simp_all add: says_yes_def says_no_def hears_yes_def hears_no_def contains_def
        sublist_code cleaned_words_def filler_words_def string_defs)
  have l: "lower ''yes'' \<noteq> []" "lower ''nope'' \<noteq> []" "lower ''what time is it'' \<noteq> []"
    by (simp_all add: lower_def)
  show ?thesis
    using confirmation_by_substring [OF l(1), of armed_world "[]"]
      confirmation_by_substring [OF l(2), of armed_world "[]"]
      confirmation_by_substring [OF l(3), of armed_world "[Phrase ''yes'']"]
      confirmation_by_substring [OF l(1), of "speak ''Please say yes or no'' armed_world" "[]"]
      y n ny u
    by simp
qed

text \<open>
  The test is on substrings and the affirmative words are tried first: \<open>open notepad\<close>
  resolves the gate to false without a negative token, \<open>yes no\<close> resolves it to true with
  one, and \<open>yesterday\<close> resolves it to true without an affirmative token.
\<close>

theorem confirmation_by_token_counterexample:
  "\<not> (fst (confirmation_step (Phrase ''open notepad'') armed_world) = Returns False
        \<longleftrightarrow> says_no ''open notepad'')
   \<and> \<not> (fst (confirmation_step (Phrase ''yes no'') armed_world) = Returns False
        \<longleftrightarrow> says_no ''yes no'')
   \<and> \<not> (fst (confirmation_step (Phrase ''yesterday'') armed_world) = Returns True
        \<longleftrightarrow> says_yes ''yesterday'')"
  by (simp add: says_yes_def says_no_def gate_defs cleaned_words_def filler_words_def string_defs)

lemma os_calls_speak: "os_calls (speak t w) = os_calls w"
  by (simp add: speak_def)

lemma step_outcome_any_world: "fst (confirmation_step e w) = fst (confirmation_step e w')"
  by (simp add: confirmation_step_def Let_def split: mic_event.splits)

lemma os_calls_step: "os_calls (snd (confirmation_step e w)) = os_calls w"
  by (simp add: confirmation_step_def Let_def os_calls_speak split: mic_event.splits)

lemma os_calls_listen: "os_calls (fst (snd (listen es w))) = os_calls w"
proof (induction es arbitrary: w)
  case Nil
  then show ?case by simp
next
  case (Cons e es)
  obtain s w' where step: "confirmation_step e w = (s, w')"
    by (cases "confirmation_step e w")
  then have "os_calls w' = os_calls w"
    using os_calls_step [of e w] by simp
  with step Cons.IH [of w'] show ?case
    by (cases s) simp_all
qed

lemma first_raise_any_world: "first_raise es w = first_raise es w'"
proof (induction es arbitrary: w w')
  case Nil
  then show ?case by simp
next
  case (Cons e es)
  obtain s v where a: "confirmation_step e w = (s, v)"
    by (cases "confirmation_step e w")
  obtain s' v' where b: "confirmation_step e w' = (s', v')"
    by (cases "confirmation_step e w'")
  have "s = s'"
    using step_outcome_any_world [of e w w'] a b by simp
  with a b Cons.IH [of v v'] show ?case
    by (auto split: step.splits)
qed

lemma listen_first_raise: "first_raise es w = Some r \<Longrightarrow> fst (listen es w) = Raised r"
proof (induction es arbitrary: w)
  case Nil
  then show ?case by simp
next
  case (Cons e es)
  obtain s w' where step: "confirmation_step e w = (s, w')"
    by (cases "confirmation_step e w")
  with Cons show ?case
    by (cases s) simp_all
qed

lemma raised_inside_any_prompt:
  "raised_inside c prompt events w = raised_inside c prompt' events w'"
  using first_raise_any_world [of events "speak prompt w" "speak prompt' w'"]
  by (simp add: raised_inside_def split: option.splits)

lemma body_raised:
  "raised_inside c prompt events w = Some r \<Longrightarrow>
   fst (confirmation_body c prompt events w) = Raised r"
  by (auto simp: raised_inside_def confirmation_body_def listen_first_raise split: option.splits)

lemma os_calls_body:
  "os_calls (fst (snd (confirmation_body c prompt events w))) = os_calls w"
  by (simp add: confirmation_body_def os_calls_listen os_calls_speak split: option.splits)

lemma os_calls_get_confirmation:
  "os_calls (fst (snd (get_confirmation c prompt events w))) = os_calls w"
proof -
  obtain g w' es where b: "confirmation_body c prompt events w = (g, w', es)"
    by (cases "confirmation_body c prompt events w")
  then have "os_calls w' = os_calls w"
    using os_calls_body [of c prompt events w] by simp
  with b show ?thesis
    by (simp add: get_confirmation_def split: gate.splits raised.splits option.splits)
qed

lemma get_confirmation_raised:
  assumes "raised_inside c prompt events w = Some r"
  shows "fst (get_confirmation c prompt events w) =
           (case r of
              Error m \<Rightarrow>
                (case confirmation_print c of
                   None \<Rightarrow> Resolved False
                 | Some m' \<Rightarrow> Raised (Error m'))
            | Interrupt \<Rightarrow> Raised Interrupt)"
proof -
  obtain g w' es where b: "confirmation_body c prompt events w = (g, w', es)"
    by (cases "confirmation_body c prompt events w")
  then have "g = Raised r"
    using body_raised [OF assms] by simp
  with b show ?thesis
    by (simp add: get_confirmation_def split: raised.splits option.splits)
qed

lemma os_calls_on_error: "os_calls (snd (on_error c sentence w)) = os_calls w"
  by (simp add: on_error_def os_calls_speak split: option.splits)

lemma gated_raised:
  assumes "raised_inside c prompt events w = Some r"
  shows "os_calls (fst (snd (gated c prompt cancelled failed action events w))) = os_calls w"
proof -
  obtain g w' es where gc: "get_confirmation c prompt events w = (g, w', es)"
    by (cases "get_confirmation c prompt events w")
  have "g \<noteq> Resolved True"
    using get_confirmation_raised [OF assms] gc by (auto split: raised.splits option.splits)
  moreover have w': "os_calls w' = os_calls w"
    using os_calls_get_confirmation [of c prompt events w] gc by simp
  moreover obtain status w'' where oe: "on_error c failed w' = (status, w'')"
    by (cases "on_error c failed w'")
  moreover from oe have "os_calls w'' = os_calls w'"
    using os_calls_on_error [of c failed w'] by simp
  ultimately show ?thesis
    using gc by (cases g) (auto simp: gated_def os_calls_speak split: raised.splits)
qed

lemma handle_delete_raised:
  assumes "raised_inside c prompt events w = Some r"
  shows "os_calls (fst (snd (handle_delete c env target events w))) = os_calls w"
proof -
  have "os_calls (fst (snd (gated c p cancelled failed action events w))) = os_calls w"
    for p cancelled failed action
    using assms raised_inside_any_prompt [of c p events w prompt w] by (simp add: gated_raised)
  then show ?thesis
    by (simp add: handle_delete_def if_target_def os_calls_speak split: option.splits list.splits)
qed

text \<open>
  C10, as the code has it. When an exception is raised inside \<open>get_confirmation\<close>, the
  function returns \<open>False\<close> if the exception is an instance of \<open>Exception\<close> and the line
  that the handler prints is printed; a \<open>KeyboardInterrupt\<close>, and the exception of a
  handler whose \<open>print\<close> raises, leave the function instead. It never returns \<open>True\<close>, and
  the handler of a shutdown, restart, sleep or delete command makes no call to the
  platform.
\<close>

theorem confirmation_fault_refuses:
  assumes "raised_inside c prompt events w = Some r"
  shows "fst (get_confirmation c prompt events w) =
           (case r of
              Error m \<Rightarrow>
                (case confirmation_print c of
                   None \<Rightarrow> Resolved False
                 | Some m' \<Rightarrow> Raised (Error m'))
            | Interrupt \<Rightarrow> Raised Interrupt)
    \<and> fst (get_confirmation c prompt events w) \<noteq> Resolved True
    \<and> (fst (parse_command text) \<in> {Some Shutdown, Some Restart, Some Sleep, Some Delete} \<longrightarrow>
         os_calls (fst (snd (handle_utterance c env text events w))) = os_calls w)"
proof -
  note outcome = get_confirmation_raised [OF assms]
  have never_true: "fst (get_confirmation c prompt events w) \<noteq> Resolved True"
    unfolding outcome by (simp split: raised.splits option.splits)
  have g: "os_calls (fst (snd (gated c p cancelled failed action events w))) = os_calls w"
    for p cancelled failed action
    using assms raised_inside_any_prompt [of c p events w prompt w] by (simp add: gated_raised)
  have "os_calls (fst (snd (handle_utterance c env text events w))) = os_calls w"
    if behind_gate:
      "fst (parse_command text) \<in> {Some Shutdown, Some Restart, Some Sleep, Some Delete}"
  proof -
    obtain i target where pc: "parse_command text = (Some i, target)"
      using behind_gate by (cases "parse_command text") auto
    with behind_gate have "i = Shutdown \<or> i = Restart \<or> i = Sleep \<or> i = Delete"
      by simp
    then show ?thesis
      using pc g handle_delete_raised [OF assms]
      by (auto simp: handle_utterance_def)
  qed
  with outcome never_true show ?thesis
    by blast
qed

lemma shut_down_parsed: "parse_command ''shut down the computer'' = (Some Shutdown, None)"
  by (simp add: parse_defs string_defs)

theorem confirmation_fault_refuses_witness:
  "raised_inside quiet_console ''Are you sure you want to shut down?''
      [NoPhrase, Phrase ''maybe'', Fault (Error ''Input overflowed''), Phrase ''yes'']
      armed_world = Some (Error ''Input overflowed'')
   \<and> fst (get_confirmation quiet_console ''Are you sure you want to shut down?''
        [NoPhrase, Phrase ''maybe'', Fault (Error ''Input overflowed''), Phrase ''yes'']
        armed_world) = Resolved False
   \<and> os_calls (fst (snd (handle_utterance quiet_console sample_env ''shut down the computer''
        [NoPhrase, Phrase ''maybe'', Fault (Error ''Input overflowed''), Phrase ''yes'']
        armed_world))) = []"
proof -
  have r: "raised_inside quiet_console ''Are you sure you want to shut down?''
      [NoPhrase, Phrase ''maybe'', Fault (Error ''Input overflowed''), Phrase ''yes'']
      armed_world = Some (Error ''Input overflowed'')"
    by (simp add: raised_inside_def quiet_console_def gate_defs string_defs)
  from confirmation_fault_refuses [OF r, of "''shut down the computer''" sample_env] r
  show ?thesis
    by (simp add: shut_down_parsed armed_world_def quiet_console_def)
qed

text \<open>
  A \<open>KeyboardInterrupt\<close> in a pass, and any exception when the output is closed (the
  handler's own \<open>print\<close> raises), leave \<open>get_confirmation\<close> as exceptions: it does not
  return \<open>False\<close>.
\<close>

theorem confirmation_fault_counterexample:
  "raised_inside quiet_console ''Are you sure you want to shut down?'' [Fault Interrupt]
      armed_world = Some Interrupt
   \<and> fst (get_confirmation quiet_console ''Are you sure you want to shut down?''
        [Fault Interrupt] armed_world) = Raised Interrupt
   \<and> raised_inside closed_console ''Are you sure you want to shut down?'' [Phrase ''yes'']
        armed_world = Some (Error ''I/O operation on closed file.'')
   \<and> fst (get_confirmation closed_console ''Are you sure you want to shut down?''
        [Phrase ''yes''] armed_world) = Raised (Error ''I/O operation on closed file.'')
   \<and> fst (get_confirmation closed_console ''Are you sure you want to shut down?''
        [Phrase ''yes''] armed_world) \<noteq> Resolved False"
  by (simp add: raised_inside_def get_confirmation_def confirmation_body_def quiet_console_def
      closed_console_def confirmation_step_def)

text \<open>Without a fault, a confirmed shutdown does reach the platform.\<close>

lemma confirmed_shutdown_runs:
  "os_calls (fst (snd (handle_utterance quiet_console sample_env ''shut down the computer''
      [NoPhrase, Phrase ''yes''] armed_world))) = [Run [''shutdown'', ''/s'', ''/t'', ''0'']]"
  by (simp add: handle_utterance_def shut_down_parsed gated_def get_confirmation_def
      confirmation_body_def quiet_console_def gate_defs string_defs shutdown_system_def
      perform_def sample_env_def armed_world_def)

section \<open>Properties of the task store\<close>

lemma tasks_save: "tasks (snd (save_tasks x tm)) = tasks tm"
  by (simp add: save_tasks_def split: disk.splits)

lemma dense_ids_snoc:
  "dense_ids ts \<Longrightarrow> id' t = int (length ts) + 1 \<Longrightarrow> dense_ids (ts @ [t])"
  by (simp add: dense_ids_def)

lemma ids_update_first:
  "(\<And>t. id' (f t) = id' t) \<Longrightarrow> map id' (update_first P f ts) = map id' ts"
  by (induction ts) simp_all

lemma ids_renumber:
  "map id' (renumber (int m + 1) ts) = map int [Suc m..<Suc m + length ts]"
proof (induction ts arbitrary: m)
  case Nil
  then show ?case by simp
next
  case (Cons t ts)
  have "renumber (int m + 1 + 1) ts = renumber (int (Suc m) + 1) ts"
    by simp
  then have "map id' (renumber (int m + 1 + 1) ts) = map int [Suc (Suc m)..<Suc (Suc m) + length ts]"
    using Cons.IH [of "Suc m"] by simp
  then show ?case
    by (simp add: upt_conv_Cons del: upt_Suc)
qed

lemma length_renumber: "length (renumber k ts) = length ts"
  by (induction ts arbitrary: k) simp_all

lemma dense_ids_renumber: "dense_ids (renumber 1 ts)"
  using ids_renumber [of 0 ts] by (simp add: dense_ids_def length_renumber)

lemma find_in_set: "find P ts = Some t \<Longrightarrow> t \<in> set ts"
  by (induction ts) (auto split: if_splits)

lemma find_id_None: "find (\<lambda>t. id' t = k) ts = None \<longleftrightarrow> k \<notin> set (map id' ts)"
  by (induction ts) auto

lemma dense_add_task: "dense_ids (tasks tm) \<Longrightarrow> dense_ids (tasks (snd (add_task x d p tm)))"
  by (simp add: add_task_def Let_def tasks_save dense_ids_snoc)

lemma dense_ids_same_ids: "map id' ts' = map id' ts \<Longrightarrow> dense_ids ts \<Longrightarrow> dense_ids ts'"
  unfolding dense_ids_def using map_eq_imp_length_eq [of id' ts' id' ts] by simp

lemma dense_complete_task:
  assumes "dense_ids (tasks tm)"
  shows "dense_ids (tasks (snd (complete_task x k tm)))"
proof -
  let ?done = "update_first (\<lambda>t. id' t = k)
      (\<lambda>t. t\<lparr>completed := True, completed_at := Some (now x)\<rparr>) (tasks tm)"
  have "map id' ?done = map id' (tasks tm)"
    by (rule ids_update_first) simp
  then have "dense_ids ?done"
    using assms by (rule dense_ids_same_ids)
  with assms show ?thesis
    by (simp add: complete_task_def Let_def tasks_save split: option.splits)
qed

lemma dense_delete_task:
  "dense_ids (tasks tm) \<Longrightarrow> dense_ids (tasks (snd (delete_task x k tm)))"
  by (simp add: delete_task_def Let_def tasks_save dense_ids_renumber split: option.splits)

lemma delete_task_ids:
  assumes "k \<in> set (map id' (tasks tm))"
  shows "map id' (tasks (snd (delete_task x k tm))) = map int [1..<length (tasks tm)]"
proof -
  obtain t where f: "find (\<lambda>t. id' t = k) (tasks tm) = Some t"
    using assms find_id_None [of k "tasks tm"] by (cases "find (\<lambda>t. id' t = k) (tasks tm)") auto
  then have "t \<in> set (tasks tm)"
    by (rule find_in_set)
  then have len: "Suc (length (remove1 t (tasks tm))) = length (tasks tm)"
    by (simp add: length_remove1) (metis Suc_pred length_pos_if_in_set)
  have "map id' (renumber 1 (remove1 t (tasks tm))) = map int [1..<Suc (length (remove1 t (tasks tm)))]"
    using ids_renumber [of 0 "remove1 t (tasks tm)"] by simp
  with f len show ?thesis
    by (simp add: delete_task_def Let_def tasks_save)
qed

text \<open>
  C5. From a task list whose ids are \<open>1..N\<close> in list order, \<open>add_task\<close>, \<open>complete_task\<close>
  and \<open>delete_task\<close> each leave a list whose ids are \<open>1..N'\<close> in list order; deleting a
  task that exists leaves the ids \<open>1..N-1\<close>.
\<close>

theorem task_ids_stay_dense:
  assumes "dense_ids (tasks tm)"
  shows "dense_ids (tasks (snd (add_task x d p tm)))
    \<and> dense_ids (tasks (snd (complete_task x k tm)))
    \<and> dense_ids (tasks (snd (delete_task x k tm)))
    \<and> (k \<in> set (map id' (tasks tm)) \<longrightarrow>
         map id' (tasks (snd (delete_task x k tm))) = map int [1..<length (tasks tm)])"
  using assms dense_add_task dense_complete_task dense_delete_task delete_task_ids
  by blast

lemma file_load_tasks: "TASK_FILE (load_tasks tm) = TASK_FILE tm"
  by (simp add: load_tasks_def split: file_state.splits)

lemma TaskManager_Document: "tasks (TaskManager (Document (Some ts) stamp)) = ts"
  by (simp add: TaskManager_def load_tasks_def)

lemma TaskManager_own_file: "tasks (TaskManager (TASK_FILE (TaskManager f))) = tasks (TaskManager f)"
  by (simp add: TaskManager_def load_tasks_def split: file_state.splits)

lemma file_after_add:
  "d \<noteq> [] \<Longrightarrow> disk x = Written \<Longrightarrow>
   TASK_FILE (snd (add_task x d p tm)) =
     Document (Some (tasks (snd (add_task x d p tm)))) (saved_at x)"
  by (simp add: add_task_def Let_def save_tasks_def)

lemma file_after_add_tasks:
  assumes "calls \<noteq> []"
    and "\<forall>(x, d, p) \<in> set calls. d \<noteq> []"
    and "disk (fst (last calls)) = Written"
  shows "TASK_FILE (add_tasks calls tm) =
           Document (Some (tasks (add_tasks calls tm))) (saved_at (fst (last calls)))"
  using assms
proof (induction calls arbitrary: tm)
  case Nil
  then show ?case by simp
next
  case (Cons call calls)
  obtain x d p where call: "call = (x, d, p)"
    by (cases call)
  show ?case
  proof (cases "calls = []")
    case True
    with Cons.prems call have "d \<noteq> []" "disk x = Written"
      by simp_all
    then show ?thesis
      using True call by (simp add: file_after_add)
  next
    case False
    with Cons.prems have "\<forall>(x, d, p) \<in> set calls. d \<noteq> []" "disk (fst (last calls)) = Written"
      by simp_all
    from Cons.IH [OF False this, of "snd (add_task x d p tm)"] False call show ?thesis
      by simp
  qed
qed

lemma tasks_add_tasks:
  assumes "\<forall>(x, d, p) \<in> set calls. d \<noteq> []"
  shows "tasks (add_tasks calls tm) = tasks tm @ new_tasks (length (tasks tm)) calls"
  using assms
proof (induction calls arbitrary: tm)
  case Nil
  then show ?case by simp
next
  case (Cons c calls)
  obtain x d p where c: "c = (x, d, p)"
    by (cases c)
  with Cons.prems have d: "d \<noteq> []"
    by simp
  have step: "tasks (snd (add_task x d p tm)) = tasks tm @ new_tasks (length (tasks tm)) [(x, d, p)]"
    using d by (simp add: add_task_def Let_def tasks_save)
  from Cons.prems have "\<forall>(x, d, p) \<in> set calls. d \<noteq> []"
    by simp
  from Cons.IH [OF this, of "snd (add_task x d p tm)"] step c show ?case
    by simp
qed

lemma length_new_tasks: "length (new_tasks n calls) = length calls"
  by (induction n calls rule: new_tasks.induct) simp_all

lemma reload_after_add_tasks:
  assumes "\<forall>(x, d, p) \<in> set calls. d \<noteq> []"
    and "calls = [] \<or> disk (fst (last calls)) = Written"
  shows "tasks (TaskManager (TASK_FILE (add_tasks calls (TaskManager f)))) =
           tasks (add_tasks calls (TaskManager f))"
proof (cases "calls = []")
  case True
  then show ?thesis
    by (simp add: TaskManager_own_file)
next
  case False
  with assms(2) have "disk (fst (last calls)) = Written"
    by simp
  from file_after_add_tasks [OF False assms(1) this, of "TaskManager f"] show ?thesis
    by (simp add: TaskManager_Document)
qed

text \<open>
  C6, as the code has it. A fresh manager, \<open>N\<close> calls of \<open>add_task\<close> with non-empty
  descriptions, then a manager constructed on the file that the calls have left: when the
  document written by the last call has reached the disk, the tasks it loads are the tasks
  in the store of the first manager, field by field. They are the tasks that manager
  started with followed by the \<open>N\<close> new ones, and exactly the \<open>N\<close> new ones when there was
  no file.
\<close>

theorem add_then_reload:
  assumes "\<forall>(x, d, p) \<in> set calls. d \<noteq> []"
    and "calls = [] \<or> disk (fst (last calls)) = Written"
  shows "tasks (TaskManager (TASK_FILE (add_tasks calls (TaskManager f)))) =
           tasks (add_tasks calls (TaskManager f))
    \<and> tasks (TaskManager (TASK_FILE (add_tasks calls (TaskManager f)))) =
           tasks (TaskManager f) @ new_tasks (length (tasks (TaskManager f))) calls
    \<and> tasks (TaskManager (TASK_FILE (add_tasks calls (TaskManager Absent)))) = new_tasks 0 calls
    \<and> length (tasks (TaskManager (TASK_FILE (add_tasks calls (TaskManager Absent))))) =
           length calls"
proof -
  have same: "tasks (TaskManager (TASK_FILE (add_tasks calls (TaskManager g)))) =
      tasks (add_tasks calls (TaskManager g))" for g
    using assms by (rule reload_after_add_tasks)
  have new: "tasks (add_tasks calls (TaskManager g)) =
      tasks (TaskManager g) @ new_tasks (length (tasks (TaskManager g))) calls" for g
    using assms(1) by (rule tasks_add_tasks)
  have empty: "tasks (TaskManager Absent) = []"
    by (simp add: TaskManager_def load_tasks_def)
  show ?thesis
    using same [of f] same [of Absent] new [of f] new [of Absent] empty
    by (simp add: length_new_tasks)
qed

lemma sample_store:
  "tasks (add_tasks sample_calls (TaskManager Absent)) =
     [\<lparr>id' = 1, description = ''Buy groceries'', priority = ''normal'', completed = False,
       created = ''2026-01-05T09:00:00'', completed_at = None\<rparr>,
      \<lparr>id' = 2, description = ''Finish SYDNY project'', priority = ''high'', completed = False,
       created = ''2026-01-05T09:01:00'', completed_at = None\<rparr>,
      \<lparr>id' = 3, description = ''Call mom'', priority = ''normal'', completed = False,
       created = ''2026-01-05T09:02:00'', completed_at = None\<rparr>]"
  by (simp add: sample_calls_def TaskManager_def load_tasks_def add_task_def save_tasks_def
      strip_def isspace_def Let_def)

theorem task_ids_stay_dense_witness:
  "dense_ids (tasks (add_tasks sample_calls (TaskManager Absent)))
   \<and> map id' (tasks (snd (delete_task sample_io 2 (add_tasks sample_calls (TaskManager Absent)))))
       = [1, 2]
   \<and> dense_ids (tasks (snd (complete_task sample_io 2
         (add_tasks sample_calls (TaskManager Absent)))))
   \<and> dense_ids (tasks (snd (add_task sample_io ''Water the plants'' ''low''
         (add_tasks sample_calls (TaskManager Absent)))))"
proof -
  have d: "dense_ids (tasks (add_tasks sample_calls (TaskManager Absent)))"
    by (simp add: sample_store dense_ids_def upt_conv_Cons)
  have m: "(2::int) \<in> set (map id' (tasks (add_tasks sample_calls (TaskManager Absent))))"
    by (simp add: sample_store)
  have n: "map int [1..<length (tasks (add_tasks sample_calls (TaskManager Absent)))] = [1, 2]"
    by (simp add: sample_store upt_conv_Cons)
  show ?thesis
    using task_ids_stay_dense [OF d, of sample_io "''Water the plants''" "''low''" 2] d m n
    by simp
qed

theorem add_then_reload_witness:
  "tasks (TaskManager (TASK_FILE (add_tasks sample_calls (TaskManager Absent)))) =
     [\<lparr>id' = 1, description = ''Buy groceries'', priority = ''normal'', completed = False,
       created = ''2026-01-05T09:00:00'', completed_at = None\<rparr>,
      \<lparr>id' = 2, description = ''Finish SYDNY project'', priority = ''high'', completed = False,
       created = ''2026-01-05T09:01:00'', completed_at = None\<rparr>,
      \<lparr>id' = 3, description = ''Call mom'', priority = ''normal'', completed = False,
       created = ''2026-01-05T09:02:00'', completed_at = None\<rparr>]
   \<and> length (tasks (TaskManager (TASK_FILE (add_tasks sample_calls (TaskManager Absent))))) = 3"
proof -
  have valid: "\<forall>(x, d, p) \<in> set sample_calls. d \<noteq> []"
    by (simp add: sample_calls_def)
  have written: "sample_calls = [] \<or> disk (fst (last sample_calls)) = Written"
    by (simp add: sample_calls_def)
  have n: "length sample_calls = 3"
    by (simp add: sample_calls_def)
  note reload = add_then_reload [OF valid written, of Absent]
  have "tasks (TaskManager (TASK_FILE (add_tasks sample_calls (TaskManager Absent)))) =
      tasks (add_tasks sample_calls (TaskManager Absent))"
    by (rule reload [THEN conjunct1])
  moreover have
    "length (tasks (TaskManager (TASK_FILE (add_tasks sample_calls (TaskManager Absent))))) =
      length sample_calls"
    by (rule reload [THEN conjunct2, THEN conjunct2, THEN conjunct2])
  ultimately show ?thesis
    by (simp only: sample_store n simp_thms)
qed

text \<open>
  \<open>save_tasks\<close> catches the exception of a write that fails and \<open>add_task\<close> does not look
  at its result: the task is in the store, the file is as it was, and a reload does not
  find the task.
\<close>

theorem add_then_reload_counterexample:
  "tasks (add_tasks [(sample_io\<lparr>disk := OpenFails\<rparr>, ''Water the plants'', ''low'')]
      (TaskManager Absent)) =
     [\<lparr>id' = 1, description = ''Water the plants'', priority = ''low'', completed = False,
       created = ''2026-01-06T10:00:00'', completed_at = None\<rparr>]
   \<and> tasks (TaskManager (TASK_FILE
        (add_tasks [(sample_io\<lparr>disk := OpenFails\<rparr>, ''Water the plants'', ''low'')]
          (TaskManager Absent)))) = []
   \<and> tasks (load_tasks
        (add_tasks [(sample_io\<lparr>disk := OpenFails\<rparr>, ''Water the plants'', ''low'')]
          (TaskManager Absent))) = []"
  by (simp add: add_task_def save_tasks_def load_tasks_def TaskManager_def sample_io_def Let_def
      strip_def isspace_def)

end
